theory Spec2Isabelle
  imports Main "HOL-Library.Sublist"
begin

section \<open>Python values, exceptions and the string operations the program uses\<close>

text \<open>
  A Python \<open>str\<close> is held as the list of its UTF-8 bytes (\<open>string\<close>), which is also what
  \<open>print\<close> writes to a UTF-8 standard output. A value decoded by \<open>json.loads\<close> is a
  \<open>pyval\<close>; a decoded object is an association list read with \<open>map_of\<close>. A float is held
  as the text of its \<open>repr\<close>, which is what \<open>str\<close> and \<open>format\<close> with no type code print.
\<close>

datatype pyval =
    PNone
  | PBool bool
  | PInt int
  | PFloat string
  | PStr string
  | PList "pyval list"
  | PDict "(string \<times> pyval) list"

datatype exn =
    KeyError pyval
  | IndexError
  | TypeError
  | AttributeError
  | URLError
  | UnicodeDecodeError
  | ParsingError
  | InterpolationSyntaxError
  | InterpolationMissingOptionError
  | InterpolationDepthError
  | SystemExit string

type_synonym 'a result = "exn + 'a"

subsection \<open>Code points of a UTF-8 string\<close>

definition is_cont :: "char \<Rightarrow> bool" where
  "is_cont c = ((of_char c :: nat) div 64 = 2)"

definition py_len :: "string \<Rightarrow> nat" where
  "py_len s = length (filter (\<lambda>c. \<not> is_cont c) s)"

function codepoints :: "string \<Rightarrow> string list" where
  "codepoints [] = []"
| "codepoints (c # cs) = (c # takeWhile is_cont cs) # codepoints (dropWhile is_cont cs)"
  by pat_completeness auto
termination
  by (relation "measure length") (auto simp: length_dropWhile_le less_Suc_eq_le)

subsection \<open>\<open>str(int)\<close>\<close>

definition digit_char :: "nat \<Rightarrow> char" where
  "digit_char d = char_of (48 + d)"

function str_of_nat :: "nat \<Rightarrow> string" where
  "str_of_nat n = (if n < 10 then [digit_char n] else str_of_nat (n div 10) @ [digit_char (n mod 10)])"
  by pat_completeness auto
termination
  by (relation "measure id") auto

declare str_of_nat.simps [simp del]

definition str_of_int :: "int \<Rightarrow> string" where
  "str_of_int i = (if i < 0 then CHR ''-'' # str_of_nat (nat (- i)) else str_of_nat (nat i))"

subsection \<open>Subscripts\<close>

text \<open>\<open>v[k]\<close> for a string key \<open>k\<close>: a dict looks the key up and raises \<open>KeyError\<close> when it
  is absent; a list or a string refuses a string index, and the other values are not
  subscriptable (\<open>TypeError\<close> both times).\<close>

fun getitem_key :: "pyval \<Rightarrow> string \<Rightarrow> pyval result" where
  "getitem_key (PDict d) k = (case map_of d k of None \<Rightarrow> Inl (KeyError (PStr k)) | Some v \<Rightarrow> Inr v)"
| "getitem_key _ k = Inl TypeError"

text \<open>Python indexing of a sequence: a negative index counts from the end, and an index
  out of range raises \<open>IndexError\<close>.\<close>

definition seq_index :: "'a list \<Rightarrow> int \<Rightarrow> 'a result" where
  "seq_index xs i =
     (if 0 \<le> i then
        (if nat i < length xs then Inr (xs ! nat i) else Inl IndexError)
      else
        (if nat (- i) \<le> length xs then Inr (xs ! (length xs - nat (- i)))
         else Inl IndexError))"

text \<open>\<open>v[i]\<close> for an integer \<open>i\<close>: a list gives its element, a string its code point (as a
  string), a decoded object has string keys only, so the integer is a missing key.\<close>

fun getitem_index :: "pyval \<Rightarrow> int \<Rightarrow> pyval result" where
  "getitem_index (PList xs) i = seq_index xs i"
| "getitem_index (PStr s) i = map_sum id PStr (seq_index (codepoints s) i)"
| "getitem_index (PDict d) i = Inl (KeyError (PInt i))"
| "getitem_index _ i = Inl TypeError"

subsection \<open>Formatting\<close>

text \<open>The parts of Python's built-in behaviour that are not written out here are taken
  as parameters: the \<open>repr\<close> of a list or dict, and \<open>str.capitalize\<close> and \<open>str.lower\<close> on
  a string with characters outside ASCII (Unicode case mapping).\<close>

record builtins =
  repr_container :: "pyval \<Rightarrow> string"
  capitalize_unicode :: "string \<Rightarrow> string"
  lower_unicode :: "string \<Rightarrow> string"

text \<open>\<open>format(v, '')\<close>, which is \<open>str(v)\<close> for every value a payload holds.\<close>

fun py_str :: "builtins \<Rightarrow> pyval \<Rightarrow> string" where
  "py_str lib PNone = ''None''"
| "py_str lib (PBool b) = (if b then ''True'' else ''False'')"
| "py_str lib (PInt i) = str_of_int i"
| "py_str lib (PFloat r) = r"
| "py_str lib (PStr s) = s"
| "py_str lib v = repr_container lib v"

text \<open>Alignment \<open>^\<close> in a field of \<open>width\<close> code points: the padding is split with the odd
  space on the right, and a text at least as long as the field is left as it is.\<close>

definition py_center :: "string \<Rightarrow> nat \<Rightarrow> string" where
  "py_center s width =
     (let pad = width - py_len s; left = pad div 2
      in replicate left CHR '' '' @ s @ replicate (pad - left) CHR '' '')"

text \<open>\<open>format(v, '^' + str(width))\<close>: strings and numbers are centred (a bool as the
  integer it is); \<open>None\<close>, lists and dicts refuse a format specification.\<close>

fun format_center :: "pyval \<Rightarrow> nat \<Rightarrow> string result" where
  "format_center (PStr s) width = Inr (py_center s width)"
| "format_center (PInt i) width = Inr (py_center (str_of_int i) width)"
| "format_center (PBool b) width = Inr (py_center (if b then ''1'' else ''0'') width)"
| "format_center (PFloat r) width = Inr (py_center r width)"
| "format_center _ width = Inl TypeError"

definition ascii_upper :: "char \<Rightarrow> char" where
  "ascii_upper c = (let n = (of_char c :: nat) in if 97 \<le> n \<and> n \<le> 122 then char_of (n - 32) else c)"

definition ascii_lower :: "char \<Rightarrow> char" where
  "ascii_lower c = (let n = (of_char c :: nat) in if 65 \<le> n \<and> n \<le> 90 then char_of (n + 32) else c)"

definition is_ascii :: "string \<Rightarrow> bool" where
  "is_ascii s = list_all (\<lambda>c. (of_char c :: nat) < 128) s"

text \<open>\<open>s.capitalize()\<close>: first character upper case, the rest lower case.\<close>

definition capitalize :: "builtins \<Rightarrow> string \<Rightarrow> string" where
  "capitalize lib s =
     (if is_ascii s then (case s of [] \<Rightarrow> [] | c # cs \<Rightarrow> ascii_upper c # map ascii_lower cs)
      else capitalize_unicode lib s)"

text \<open>\<open>s.lower()\<close>.\<close>

definition py_lower :: "builtins \<Rightarrow> string \<Rightarrow> string" where
  "py_lower lib s = (if is_ascii s then map ascii_lower s else lower_unicode lib s)"

text \<open>\<open>v.capitalize()\<close>: only a string has the method.\<close>

fun capitalize_method :: "builtins \<Rightarrow> pyval \<Rightarrow> string result" where
  "capitalize_method lib (PStr s) = Inr (capitalize lib s)"
| "capitalize_method lib _ = Inl AttributeError"

subsection \<open>\<open>str.join\<close> and \<open>urllib.parse.quote_plus\<close>\<close>

fun join :: "string \<Rightarrow> string list \<Rightarrow> string" where
  "join sep [] = []"
| "join sep [x] = x"
| "join sep (x # y # ys) = x @ sep @ join sep (y # ys)"

definition always_safe :: "char \<Rightarrow> bool" where
  "always_safe c =
     (let n = (of_char c :: nat)
      in (65 \<le> n \<and> n \<le> 90) \<or> (97 \<le> n \<and> n \<le> 122) \<or> (48 \<le> n \<and> n \<le> 57)
         \<or> c = CHR ''_'' \<or> c = CHR ''.'' \<or> c = CHR ''-'' \<or> c = CHR ''~'')"

definition hex_digit :: "nat \<Rightarrow> char" where
  "hex_digit d = (if d < 10 then char_of (48 + d) else char_of (55 + d))"

text \<open>\<open>quote_plus\<close> with its default arguments, byte by byte on the UTF-8 encoding:
  letters, digits and \<open>_.-~\<close> stay, a space becomes \<open>+\<close>, every other byte becomes \<open>%XX\<close>
  in upper-case hexadecimal.\<close>

definition quote_byte :: "char \<Rightarrow> string" where
  "quote_byte c =
     (if always_safe c then [c]
      else if c = CHR '' '' then ''+''
      else [CHR ''%'', hex_digit ((of_char c :: nat) div 16), hex_digit ((of_char c :: nat) mod 16)])"

definition quote_plus :: "string \<Rightarrow> string" where
  "quote_plus s = concat (map quote_byte s)"

section \<open>The program\<close>

subsection \<open>What the program reads from outside\<close>

text \<open>What \<open>ConfigParser.read\<close> makes of a file it can open: it raises on a file that
  is no well-formed configuration, or it holds the options of the \<open>[DEFAULT]\<close> section
  and, for every other section found, the options written in it, each option name in
  lower case with the value as written.\<close>

record config =
  defaults :: "string \<rightharpoonup> string"
  sections :: "string \<rightharpoonup> (string \<rightharpoonup> string)"

datatype ini_file = Rejected exn | Ini config

text \<open>\<open>request.urlopen\<close> returns a response (here its body), or raises \<open>HTTPError\<close> with
  a status code (and a body of its own, which stays unread), or fails below HTTP with
  \<open>URLError\<close>.\<close>

datatype http_outcome = Response string | HTTPError int string | NoConnection

text \<open>\<open>json.loads\<close> on the bytes of a body returns the decoded value, raises
  \<open>JSONDecodeError\<close>, or raises \<open>UnicodeDecodeError\<close> on bytes that are no text.\<close>

datatype loads_outcome = Decoded pyval | JSONDecodeError | NotText

record world =
  files :: "string \<rightharpoonup> ini_file"
  urlopen :: "string \<Rightarrow> http_outcome"
  json_loads :: "string \<Rightarrow> loads_outcome"

text \<open>The module \<open>style\<close> is imported by \<open>weather.py\<close> and is not part of the sources:
  its constants are parameters, and \<open>change_color\<close> is given by the text a call writes
  to standard output.\<close>

record 'c style_module =
  PADDING :: nat
  REVERSE :: 'c
  RED :: 'c
  RESET :: 'c
  change_color :: "'c \<Rightarrow> string"

subsection \<open>\<open>weather.py\<close>\<close>

definition BASE_WEATHER_API_URL :: string where
  "BASE_WEATHER_API_URL = ''http://api.openweathermap.org/data/2.5/weather''"

text \<open>\<open>config = ConfigParser()\<close> followed by \<open>config.read(name)\<close>: a file that cannot
  be opened is skipped and leaves the parser empty; a malformed one raises.\<close>

definition config_read :: "(string \<rightharpoonup> ini_file) \<Rightarrow> string \<Rightarrow> config result" where
  "config_read fs name =
     (case fs name of
        None \<Rightarrow> Inr \<lparr>defaults = Map.empty, sections = Map.empty\<rparr>
      | Some (Rejected e) \<Rightarrow> Inl e
      | Some (Ini c) \<Rightarrow> Inr c)"

text \<open>The interpolation a \<open>ConfigParser\<close> applies to a value it hands out
  (\<open>BasicInterpolation\<close>, the default): \<open>%%\<close> stands for a percent sign, \<open>%(name)s\<close> for
  the value of the option \<open>name\<close> (lower-cased), itself interpolated when it holds a
  percent sign, to a nesting depth of 10; any other use of \<open>%\<close> raises.\<close>

function interpolate_some ::
  "builtins \<Rightarrow> (string \<rightharpoonup> string) \<Rightarrow> nat \<Rightarrow> string \<Rightarrow> string result"
where
  "interpolate_some lib options depth rest =
     (if depth > 10 then Inl InterpolationDepthError
      else case rest of
        [] \<Rightarrow> Inr []
      | c # cs \<Rightarrow>
          if c \<noteq> CHR ''%'' then
            (case interpolate_some lib options depth cs of
               Inl e \<Rightarrow> Inl e
             | Inr done \<Rightarrow> Inr (c # done))
          else
            (case cs of
               [] \<Rightarrow> Inl InterpolationSyntaxError
             | d # ds \<Rightarrow>
                 if d = CHR ''%'' then
                   (case interpolate_some lib options depth ds of
                      Inl e \<Rightarrow> Inl e
                    | Inr done \<Rightarrow> Inr (CHR ''%'' # done))
                 else if d = CHR ''('' then
                   (let var = takeWhile (\<lambda>x. x \<noteq> CHR '')'') ds;
                        after = dropWhile (\<lambda>x. x \<noteq> CHR '')'') ds
                    in if var = [] \<or> \<not> prefix '')s'' after then Inl InterpolationSyntaxError
                       else
                         (case options (py_lower lib var) of
                            None \<Rightarrow> Inl InterpolationMissingOptionError
                          | Some v \<Rightarrow>
                              (case (if CHR ''%'' \<in> set v
                                     then interpolate_some lib options (depth + 1) v
                                     else Inr v) of
                                 Inl e \<Rightarrow> Inl e
                               | Inr inserted \<Rightarrow>
                                   (case interpolate_some lib options depth (drop 2 after) of
                                      Inl e \<Rightarrow> Inl e
                                    | Inr done \<Rightarrow> Inr (inserted @ done)))))
                 else Inl InterpolationSyntaxError))"
  by pat_completeness auto
termination
proof (relation "measures [\<lambda>(lib, options, depth, rest). 11 - depth,
                           \<lambda>(lib, options, depth, rest). length rest]", goal_cases)
  case 1 show ?case by simp
next
  case 2 then show ?case by simp
next
  case 3 then show ?case by simp
next
  case 4 then show ?case by auto
next
  case (5 lib options depth rest c cs d ds var after v)
  have "length (dropWhile (\<lambda>x. x \<noteq> CHR '')'') ds) \<le> length ds"
    by (rule length_dropWhile_le)
  with 5 show ?case by auto
qed

declare interpolate_some.simps [simp del]

text \<open>\<open>_get_api_key\<close> (lines 75 to 87). \<open>config['openweather']\<close> raises \<open>KeyError\<close> when
  the file has no such section; \<open>['api_key']\<close> on the section raises \<open>KeyError\<close> when the
  option is neither in the section nor in \<open>[DEFAULT]\<close>, and otherwise hands out the
  value, the section's before the default's, interpolated over the options of both.\<close>

definition get_api_key :: "builtins \<Rightarrow> world \<Rightarrow> string result" where
  "get_api_key lib w =
     (case config_read (files w) ''secrets.ini'' of
        Inl e \<Rightarrow> Inl e
      | Inr config \<Rightarrow>
          (case sections config ''openweather'' of
             None \<Rightarrow> Inl (KeyError (PStr ''openweather''))
           | Some section \<Rightarrow>
               (let options = defaults config ++ section
                in case options ''api_key'' of
                     None \<Rightarrow> Inl (KeyError (PStr ''api_key''))
                   | Some api_key \<Rightarrow> interpolate_some lib options 1 api_key)))"

definition units_of :: "bool \<Rightarrow> string" where
  "units_of imperial = (if imperial then ''imperial'' else ''metric'')"

text \<open>\<open>build_weather_query\<close> (lines 31 to 49).\<close>

definition build_weather_query ::
  "builtins \<Rightarrow> world \<Rightarrow> string list \<Rightarrow> bool \<Rightarrow> string result"
where
  "build_weather_query lib w city_input imperial =
     (case get_api_key lib w of
        Inl e \<Rightarrow> Inl e
      | Inr api_key \<Rightarrow>
          (let city_name = join '' '' city_input;
               url_encoded_city_name = quote_plus city_name;
               units = units_of imperial
           in Inr (BASE_WEATHER_API_URL @ ''?q='' @ url_encoded_city_name
                   @ ''&units='' @ units @ ''&appid='' @ api_key)))"

text \<open>\<open>get_weather_data\<close> (lines 51 to 73) returns the calls it made on the network and
  on the response, in order, next to its result. \<open>sys.exit(message)\<close> raises
  \<open>SystemExit\<close> with the message.\<close>

datatype event = Urlopen string | ResponseRead | JsonLoads string

definition get_weather_data :: "world \<Rightarrow> string \<Rightarrow> event list \<times> pyval result" where
  "get_weather_data w query_url =
     (case urlopen w query_url of
        HTTPError code body \<Rightarrow>
          ([Urlopen query_url],
           if code = 401 then
             Inl (SystemExit ''Access denied. Please check your API key and try again.'')
           else if code = 404 then
             Inl (SystemExit ''Can't find weather data for this city.'')
           else
             Inl (SystemExit (''Something went wrong... ('' @ str_of_int code @ '')'')))
      | NoConnection \<Rightarrow> ([Urlopen query_url], Inl URLError)
      | Response data \<Rightarrow>
          ([Urlopen query_url, ResponseRead, JsonLoads data],
           case json_loads w data of
             Decoded v \<Rightarrow> Inr v
           | JSONDecodeError \<Rightarrow> Inl (SystemExit ''Couldn't read the server response.'')
           | NotText \<Rightarrow> Inl UnicodeDecodeError))"

definition and_then :: "'a result \<Rightarrow> ('a \<Rightarrow> 'b result) \<Rightarrow> 'b result" where
  "and_then r f = (case r of Inl e \<Rightarrow> Inl e | Inr v \<Rightarrow> f v)"

text \<open>The four reads of lines 90 to 93.\<close>

definition field_name :: "pyval \<Rightarrow> pyval result" where
  "field_name weather_data = getitem_key weather_data ''name''"

definition field_country :: "pyval \<Rightarrow> pyval result" where
  "field_country weather_data =
     and_then (getitem_key weather_data ''sys'') (\<lambda>s. getitem_key s ''country'')"

definition field_description :: "pyval \<Rightarrow> pyval result" where
  "field_description weather_data =
     and_then (getitem_key weather_data ''weather'')
       (\<lambda>ws. and_then (getitem_index ws 0) (\<lambda>w0. getitem_key w0 ''description''))"

definition field_temp :: "pyval \<Rightarrow> pyval result" where
  "field_temp weather_data =
     and_then (getitem_key weather_data ''main'') (\<lambda>m. getitem_key m ''temp'')"

definition unit_symbol :: "bool \<Rightarrow> string" where
  "unit_symbol imperial = (if imperial then ''F'' else ''C'')"

text \<open>The two characters between the temperature and the unit symbol in the string
  literal of line 104, as the bytes the source file holds: U+00C2, U+00B0.\<close>

definition degree_text :: string where
  "degree_text = [CHR 0xC3, CHR 0x82, CHR 0xC2, CHR 0xB0]"

text \<open>Lines 94 to 104: what is written to standard output, and the exception that
  stopped the writing, if any. Each f-string is built before its \<open>print\<close> writes.\<close>

definition write_result ::
  "'c style_module \<Rightarrow> builtins \<Rightarrow> pyval \<Rightarrow> pyval \<Rightarrow> pyval \<Rightarrow> pyval \<Rightarrow> bool \<Rightarrow> string \<times> exn option"
where
  "write_result st lib city_name city_country weather_description temperature imperial =
     (let out1 = change_color st (REVERSE st) @ change_color st (RED st)
      in case format_center city_name (PADDING st) of
           Inl e \<Rightarrow> (out1, Some e)
         | Inr name_field \<Rightarrow>
             (let out2 = out1 @ name_field @ '', '' @ py_str lib city_country;
                  out3 = out2 @ change_color st (RESET st) @ change_color st (RED st)
              in case capitalize_method lib weather_description of
                   Inl e \<Rightarrow> (out3, Some e)
                 | Inr description \<Rightarrow>
                     (let out4 = out3 @ [CHR 0x09] @ py_center description (PADDING st) @ '' '';
                          out5 = out4 @ change_color st (RESET st)
                      in (out5 @ ''('' @ py_str lib temperature @ degree_text
                            @ unit_symbol imperial @ '')'' @ [CHR 0x0A],
                          None))))"

text \<open>\<open>print_result\<close> (lines 89 to 104).\<close>

definition print_result ::
  "'c style_module \<Rightarrow> builtins \<Rightarrow> pyval \<Rightarrow> bool \<Rightarrow> string \<times> exn option"
where
  "print_result st lib weather_data imperial =
     (case field_name weather_data of
        Inl e \<Rightarrow> ([], Some e)
      | Inr city_name \<Rightarrow>
     (case field_country weather_data of
        Inl e \<Rightarrow> ([], Some e)
      | Inr city_country \<Rightarrow>
     (case field_description weather_data of
        Inl e \<Rightarrow> ([], Some e)
      | Inr weather_description \<Rightarrow>
     (case field_temp weather_data of
        Inl e \<Rightarrow> ([], Some e)
      | Inr temperature \<Rightarrow>
          write_result st lib city_name city_country weather_description temperature imperial))))"

text \<open>The script body (lines 106 to 110), from the parsed arguments on: standard
  output, and the exception that ended the run, if any.\<close>

definition main ::
  "world \<Rightarrow> 'c style_module \<Rightarrow> builtins \<Rightarrow> string list \<Rightarrow> bool \<Rightarrow> string \<times> exn option"
where
  "main w st lib city imperial =
     (case build_weather_query lib w city imperial of
        Inl e \<Rightarrow> ([], Some e)
      | Inr query_url \<Rightarrow>
          (case snd (get_weather_data w query_url) of
             Inl e \<Rightarrow> ([], Some e)
           | Inr weather_data \<Rightarrow> print_result st lib weather_data imperial))"

text \<open>How the interpreter ends: status 0 after a normal return; an exception that
  reaches the top level gives status 1, also \<open>SystemExit\<close> raised with a message, which
  is then the text written to standard error.\<close>

fun exit_status :: "exn option \<Rightarrow> nat" where
  "exit_status None = 0"
| "exit_status (Some e) = 1"

fun exit_message :: "exn option \<Rightarrow> string option" where
  "exit_message (Some (SystemExit m)) = Some m"
| "exit_message _ = None"

section \<open>Fixtures\<close>

text \<open>The exception a result carries, if any.\<close>

definition raised :: "'a result \<Rightarrow> exn option" where
  "raised r = (case r of Inl e \<Rightarrow> Some e | Inr v \<Rightarrow> None)"

text \<open>Concrete surroundings for the examples: a \<open>style\<close> module with a column of 20
  whose \<open>change_color\<close> writes the control sequence it is given, and a world whose
  \<open>secrets.ini\<close> holds one key and whose network and decoder answer as told.\<close>

definition example_builtins :: builtins where
  "example_builtins =
     \<lparr>repr_container = (\<lambda>v. ''[...]''), capitalize_unicode = (\<lambda>s. s),
      lower_unicode = (\<lambda>s. s)\<rparr>"

definition example_style :: "string style_module" where
  "example_style =
     \<lparr>PADDING = 20, REVERSE = CHR 0x1B # ''[7m'', RED = CHR 0x1B # ''[31m'',
      RESET = CHR 0x1B # ''[0m'', change_color = (\<lambda>color. color)\<rparr>"

definition example_world :: "string \<Rightarrow> http_outcome \<Rightarrow> loads_outcome \<Rightarrow> world" where
  "example_world api_key answer decoded =
     \<lparr>files = [''secrets.ini'' \<mapsto>
                Ini \<lparr>defaults = Map.empty,
                     sections = [''openweather'' \<mapsto> [''api_key'' \<mapsto> api_key]]\<rparr>],
      urlopen = (\<lambda>url. answer), json_loads = (\<lambda>data. decoded)\<rparr>"

text \<open>The decoded payload of the specification's example.\<close>

definition paris_payload :: pyval where
  "paris_payload =
     PDict [(''name'', PStr ''Paris''),
            (''sys'', PDict [(''country'', PStr ''FR'')]),
            (''weather'', PList [PDict [(''description'', PStr ''clear sky'')]]),
            (''main'', PDict [(''temp'', PFloat ''18.5'')])]"

text \<open>The degree sign U+00B0 in UTF-8.\<close>

definition degree_sign :: string where
  "degree_sign = [CHR 0xC2, CHR 0xB0]"

text \<open>The same city with the further fields a weather service sends along.\<close>

definition paris_payload_extended :: pyval where
  "paris_payload_extended =
     PDict [(''coord'', PDict [(''lon'', PFloat ''2.3488''), (''lat'', PFloat ''48.8534'')]),
            (''weather'', PList [PDict [(''id'', PInt 800), (''description'', PStr ''clear sky'')],
                                 PDict [(''id'', PInt 701), (''description'', PStr ''mist'')]]),
            (''main'', PDict [(''temp'', PFloat ''18.5''), (''humidity'', PInt 60)]),
            (''sys'', PDict [(''country'', PStr ''FR''), (''sunrise'', PInt 1726636384)]),
            (''name'', PStr ''Paris''),
            (''cod'', PInt 200)]"

section \<open>Values without a percent sign\<close>

lemma interpolate_some_plain:
  assumes "CHR ''%'' \<notin> set s" and "depth \<le> 10"
  shows "interpolate_some lib options depth s = Inr s"
  using assms
proof (induction s)
  case Nil
  then show ?case by (simp add: interpolate_some.simps [of _ _ _ "[]"])
next
  case (Cons a s)
  then show ?case by (auto simp: interpolate_some.simps [of _ _ _ "a # s"])
qed

lemma get_api_key_example_world:
  assumes "CHR ''%'' \<notin> set api_key"
  shows "get_api_key lib (example_world api_key answer decoded) = Inr api_key"
  using assms
  by (simp add: get_api_key_def config_read_def example_world_def interpolate_some_plain)

section \<open>The fetcher's error paths\<close>

text \<open>C4: when \<open>urlopen\<close> raises \<open>HTTPError\<close> with status 401, \<open>get_weather_data\<close> ends the
  process with a non-zero status and the message "Access denied. Please check your API
  key and try again."; the only call it made is \<open>urlopen\<close>: no body is read, nothing is
  given to \<open>json.loads\<close>, and the result is the same whatever \<open>json.loads\<close> would do.\<close>

theorem C4_unauthorized:
  assumes "urlopen w query_url = HTTPError 401 body"
  shows "fst (get_weather_data w query_url) = [Urlopen query_url]
       \<and> exit_message (raised (snd (get_weather_data w query_url))) =
           Some ''Access denied. Please check your API key and try again.''
       \<and> exit_status (raised (snd (get_weather_data w query_url))) \<noteq> 0
       \<and> get_weather_data (w\<lparr>json_loads := parse\<rparr>) query_url = get_weather_data w query_url"
  using assms by (simp add: get_weather_data_def raised_def)

theorem C4_unauthorized_witness:
  "urlopen (example_world ''k'' (HTTPError 401 ''{}'') NotText) ''u'' = HTTPError 401 ''{}''
   \<and> get_weather_data (example_world ''k'' (HTTPError 401 ''{}'') NotText) ''u'' =
       ([Urlopen ''u''],
        Inl (SystemExit ''Access denied. Please check your API key and try again.''))
   \<and> get_weather_data (example_world ''k'' (HTTPError 401 ''{}'') (Decoded PNone)) ''u'' =
       get_weather_data (example_world ''k'' (HTTPError 401 ''{}'') NotText) ''u''"
proof -
  have h: "urlopen (example_world ''k'' (HTTPError 401 ''{}'') NotText) ''u'' = HTTPError 401 ''{}''"
    by (simp add: example_world_def)
  have e: "(example_world ''k'' (HTTPError 401 ''{}'') NotText)\<lparr>json_loads := (\<lambda>data. Decoded PNone)\<rparr>
           = example_world ''k'' (HTTPError 401 ''{}'') (Decoded PNone)"
    by (simp add: example_world_def)
  from C4_unauthorized [OF h, of "\<lambda>data. Decoded PNone"] h e show ?thesis
    by (simp add: get_weather_data_def)
qed

text \<open>C5: when \<open>urlopen\<close> raises \<open>HTTPError\<close>, the result of \<open>get_weather_data\<close> is fixed by
  the status code alone (not by the URL, the body or the rest of the world): a non-zero
  exit, with the message "Can't find weather data for this city." for 404, and for a code
  other than 401 and 404 the message "Something went wrong... (code)", which holds the
  code in decimal.\<close>

theorem C5_http_error_message:
  assumes "urlopen w1 url1 = HTTPError code body1"
      and "urlopen w2 url2 = HTTPError code body2"
  shows "snd (get_weather_data w1 url1) = snd (get_weather_data w2 url2)
       \<and> exit_status (raised (snd (get_weather_data w1 url1))) \<noteq> 0
       \<and> (code = 404 \<longrightarrow>
            exit_message (raised (snd (get_weather_data w1 url1))) =
              Some ''Can't find weather data for this city.'')
       \<and> (code \<noteq> 401 \<and> code \<noteq> 404 \<longrightarrow>
            exit_message (raised (snd (get_weather_data w1 url1))) =
              Some (''Something went wrong... ('' @ str_of_int code @ '')'')
            \<and> sublist (str_of_int code)
                 (the (exit_message (raised (snd (get_weather_data w1 url1))))))"
proof -
  have "sublist (str_of_int code) (''Something went wrong... ('' @ str_of_int code @ '')'')"
    by (rule sublist_appendI)
  with assms show ?thesis
    by (simp add: get_weather_data_def raised_def)
qed

theorem C5_http_error_message_witness:
  "snd (get_weather_data (example_world ''k'' (HTTPError 404 ''a'') NotText) ''u'') =
     Inl (SystemExit ''Can't find weather data for this city.'')
   \<and> snd (get_weather_data (example_world ''k'' (HTTPError 503 ''a'') NotText) ''u'') =
     Inl (SystemExit ''Something went wrong... (503)'')
   \<and> snd (get_weather_data (example_world ''k'' (HTTPError 503 ''a'') NotText) ''u'') =
     snd (get_weather_data (example_world ''other'' (HTTPError 503 ''b'') JSONDecodeError) ''v'')"
proof -
  have a: "urlopen (example_world ''k'' (HTTPError 404 ''a'') NotText) ''u'' = HTTPError 404 ''a''"
    by (simp add: example_world_def)
  have b: "urlopen (example_world ''k'' (HTTPError 503 ''a'') NotText) ''u'' = HTTPError 503 ''a''"
    by (simp add: example_world_def)
  have c: "urlopen (example_world ''other'' (HTTPError 503 ''b'') JSONDecodeError) ''v'' = HTTPError 503 ''b''"
    by (simp add: example_world_def)
  have s: "str_of_int 503 = ''503''" by code_simp
  from C5_http_error_message [OF a a] C5_http_error_message [OF b c] s show ?thesis
    by (cases "snd (get_weather_data (example_world ''k'' (HTTPError 404 ''a'') NotText) ''u'')";
        cases "snd (get_weather_data (example_world ''k'' (HTTPError 503 ''a'') NotText) ''u'')")
       (auto simp: raised_def elim: exit_message.elims)
qed




section \<open>The credential\<close>




section \<open>The presenter\<close>

text \<open>C9: there are decoded payloads, valid JSON all of them, on which \<open>print_result\<close>
  raises \<open>KeyError\<close> or \<open>IndexError\<close> before it writes anything: one with no key
  \<open>name\<close>, one with no key \<open>sys\<close>, one whose \<open>weather\<close> list is empty, one with no key
  \<open>main\<close>. None of these exceptions is a \<open>SystemExit\<close> with a message, and the script
  does not catch them: when the fetcher returns such a payload the run ends with that
  exception.\<close>

theorem C9_missing_field_unhandled:
  "print_result st lib
     (PDict [(''sys'', PDict [(''country'', PStr ''FR'')]),
             (''weather'', PList [PDict [(''description'', PStr ''clear sky'')]]),
             (''main'', PDict [(''temp'', PFloat ''18.5'')])]) imperial
     = ([], Some (KeyError (PStr ''name'')))
   \<and> print_result st lib
     (PDict [(''name'', PStr ''Paris''),
             (''weather'', PList [PDict [(''description'', PStr ''clear sky'')]]),
             (''main'', PDict [(''temp'', PFloat ''18.5'')])]) imperial
     = ([], Some (KeyError (PStr ''sys'')))
   \<and> print_result st lib
     (PDict [(''name'', PStr ''Paris''),
             (''sys'', PDict [(''country'', PStr ''FR'')]),
             (''weather'', PList []),
             (''main'', PDict [(''temp'', PFloat ''18.5'')])]) imperial
     = ([], Some IndexError)
   \<and> print_result st lib
     (PDict [(''name'', PStr ''Paris''),
             (''sys'', PDict [(''country'', PStr ''FR'')]),
             (''weather'', PList [PDict [(''description'', PStr ''clear sky'')]])]) imperial
     = ([], Some (KeyError (PStr ''main'')))
   \<and> exit_message (Some (KeyError (PStr ''name''))) = None
   \<and> exit_message (Some (KeyError (PStr ''sys''))) = None
   \<and> exit_message (Some IndexError) = None
   \<and> exit_message (Some (KeyError (PStr ''main''))) = None
   \<and> main (example_world ''k'' (Response ''{}'') (Decoded (PDict []))) st lib [''Paris''] imperial
     = ([], Some (KeyError (PStr ''name'')))"
proof -
  have "get_api_key lib (example_world ''k'' (Response ''{}'') (Decoded (PDict []))) = Inr ''k''"
    by (rule get_api_key_example_world) simp
  then have "main (example_world ''k'' (Response ''{}'') (Decoded (PDict []))) st lib
               [''Paris''] imperial = ([], Some (KeyError (PStr ''name'')))"
    unfolding main_def build_weather_query_def
    by (simp add: get_weather_data_def example_world_def print_result_def field_name_def)
  then show ?thesis
    by (simp add: print_result_def field_name_def field_country_def field_description_def
        field_temp_def and_then_def seq_index_def)
qed

theorem C9_missing_field_unhandled_witness:
  "print_result example_style example_builtins (PDict [(''cod'', PInt 200)]) False
     = ([], Some (KeyError (PStr ''name'')))
   \<and> main (example_world ''k'' (Response ''{}'') (Decoded (PDict []))) example_style
        example_builtins [''Paris''] True
     = ([], Some (KeyError (PStr ''name'')))"
proof -
  have "print_result example_style example_builtins (PDict [(''cod'', PInt 200)]) False
     = ([], Some (KeyError (PStr ''name'')))"
    by (simp add: print_result_def field_name_def)
  with C9_missing_field_unhandled [of example_style example_builtins True] show ?thesis
    by blast
qed

text \<open>C10: what \<open>print_result\<close> writes, and how it ends, is fixed by the flag and by the
  four reads \<open>name\<close>, \<open>sys.country\<close>, \<open>weather[0].description\<close> and \<open>main.temp\<close>: two
  payloads on which the four reads give the same results give the same output, whatever
  else either payload holds.\<close>

theorem C10_only_four_fields:
  assumes "field_name d1 = field_name d2"
      and "field_country d1 = field_country d2"
      and "field_description d1 = field_description d2"
      and "field_temp d1 = field_temp d2"
  shows "print_result st lib d1 imperial = print_result st lib d2 imperial"
  unfolding print_result_def assms by (rule refl)

theorem C10_only_four_fields_witness:
  "field_name paris_payload_extended = Inr (PStr ''Paris'')
   \<and> field_country paris_payload_extended = Inr (PStr ''FR'')
   \<and> field_description paris_payload_extended = Inr (PStr ''clear sky'')
   \<and> field_temp paris_payload_extended = Inr (PFloat ''18.5'')
   \<and> paris_payload_extended \<noteq> paris_payload
   \<and> print_result example_style example_builtins paris_payload_extended True
     = print_result example_style example_builtins paris_payload True"
proof -
  have a: "field_name paris_payload_extended = Inr (PStr ''Paris'')"
          "field_name paris_payload = Inr (PStr ''Paris'')"
    by (simp_all add: field_name_def paris_payload_def paris_payload_extended_def)
  have b: "field_country paris_payload_extended = Inr (PStr ''FR'')"
          "field_country paris_payload = Inr (PStr ''FR'')"
    by (simp_all add: field_country_def and_then_def paris_payload_def paris_payload_extended_def)
  have c: "field_description paris_payload_extended = Inr (PStr ''clear sky'')"
          "field_description paris_payload = Inr (PStr ''clear sky'')"
    by (simp_all add: field_description_def and_then_def seq_index_def paris_payload_def
        paris_payload_extended_def)
  have d: "field_temp paris_payload_extended = Inr (PFloat ''18.5'')"
          "field_temp paris_payload = Inr (PFloat ''18.5'')"
    by (simp_all add: field_temp_def and_then_def paris_payload_def paris_payload_extended_def)
  have e: "paris_payload_extended \<noteq> paris_payload"
    by (simp add: paris_payload_def paris_payload_extended_def)
  have "print_result example_style example_builtins paris_payload_extended True
     = print_result example_style example_builtins paris_payload True"
    by (rule C10_only_four_fields) (simp_all add: a b c d)
  with a b c d e show ?thesis by simp
qed

lemma capitalize_clear_sky: "capitalize lib ''clear sky'' = ''Clear sky''"
  by code_simp

lemma write_result_strings:
  "write_result st lib (PStr n) c (PStr d) t imperial =
     (change_color st (REVERSE st) @ change_color st (RED st)
        @ py_center n (PADDING st) @ '', '' @ py_str lib c
        @ change_color st (RESET st) @ change_color st (RED st)
        @ [CHR 0x09] @ py_center (capitalize lib d) (PADDING st) @ '' ''
        @ change_color st (RESET st)
        @ ''('' @ py_str lib t @ degree_text @ unit_symbol imperial @ '')'' @ [CHR 0x0A],
      None)"
  by (simp add: write_result_def)

lemma paris_fields:
  "field_name paris_payload = Inr (PStr ''Paris'')"
  "field_country paris_payload = Inr (PStr ''FR'')"
  "field_description paris_payload = Inr (PStr ''clear sky'')"
  "field_temp paris_payload = Inr (PFloat ''18.5'')"
  by (simp_all add: field_name_def field_country_def field_description_def field_temp_def
      and_then_def seq_index_def paris_payload_def)

lemma print_result_paris:
  "print_result st lib paris_payload imperial =
     (change_color st (REVERSE st) @ change_color st (RED st)
        @ py_center ''Paris'' (PADDING st) @ '', FR''
        @ change_color st (RESET st) @ change_color st (RED st)
        @ [CHR 0x09] @ py_center ''Clear sky'' (PADDING st) @ '' ''
        @ change_color st (RESET st)
        @ ''(18.5'' @ degree_text @ unit_symbol imperial @ '')'' @ [CHR 0x0A],
      None)"
  by (simp add: print_result_def paris_fields write_result_strings capitalize_clear_sky)

text \<open>The claim C1 as stated fails where the column is wider than the city name, here
  20: the name is padded on both sides, so "Paris" and ", FR" are not adjacent; and the
  text between the temperature and the unit symbol is the four bytes of the source's
  string literal, not the degree sign alone.\<close>

theorem C1_counterexample:
  "\<not> sublist ''Paris, FR'' (fst (print_result example_style example_builtins paris_payload False))
   \<and> \<not> sublist (''(18.5'' @ degree_sign @ ''C)'')
          (fst (print_result example_style example_builtins paris_payload False))"
  by code_simp

text \<open>C1, amended: for the payload of the example and \<open>imperial = False\<close>, \<open>print_result\<close>
  returns normally, and what it wrote contains "Paris" centred in a column of
  \<open>style.PADDING\<close> code points with ", FR" right after it, contains "Clear sky", contains
  "(18.5", and contains the degree sign followed by "C)".\<close>

theorem C1_paris_output:
  "snd (print_result st lib paris_payload False) = None
   \<and> sublist (py_center ''Paris'' (PADDING st) @ '', FR'')
        (fst (print_result st lib paris_payload False))
   \<and> sublist ''Clear sky'' (fst (print_result st lib paris_payload False))
   \<and> sublist ''(18.5'' (fst (print_result st lib paris_payload False))
   \<and> sublist (degree_sign @ ''C)'') (fst (print_result st lib paris_payload False))"
proof -
  let ?cc = "change_color st"
  let ?out = "fst (print_result st lib paris_payload False)"
  let ?P = "PADDING st"
  let ?pad = "?P - py_len ''Clear sky''"
  have a: "?out = (?cc (REVERSE st) @ ?cc (RED st)) @ (py_center ''Paris'' ?P @ '', FR'')
             @ (?cc (RESET st) @ ?cc (RED st) @ [CHR 0x09] @ py_center ''Clear sky'' ?P @ '' ''
                @ ?cc (RESET st) @ ''(18.5'' @ degree_text @ ''C)'' @ [CHR 0x0A])"
    by (simp add: print_result_paris unit_symbol_def)
  have b: "?out = (?cc (REVERSE st) @ ?cc (RED st) @ py_center ''Paris'' ?P @ '', FR''
                @ ?cc (RESET st) @ ?cc (RED st) @ [CHR 0x09] @ replicate (?pad div 2) CHR '' '')
             @ ''Clear sky''
             @ (replicate (?pad - ?pad div 2) CHR '' '' @ '' ''
                @ ?cc (RESET st) @ ''(18.5'' @ degree_text @ ''C)'' @ [CHR 0x0A])"
    by (simp add: print_result_paris unit_symbol_def py_center_def Let_def)
  have c: "?out = (?cc (REVERSE st) @ ?cc (RED st) @ py_center ''Paris'' ?P @ '', FR''
                @ ?cc (RESET st) @ ?cc (RED st) @ [CHR 0x09] @ py_center ''Clear sky'' ?P @ '' ''
                @ ?cc (RESET st))
             @ ''(18.5'' @ (degree_text @ ''C)'' @ [CHR 0x0A])"
    by (simp add: print_result_paris unit_symbol_def)
  have d: "?out = (?cc (REVERSE st) @ ?cc (RED st) @ py_center ''Paris'' ?P @ '', FR''
                @ ?cc (RESET st) @ ?cc (RED st) @ [CHR 0x09] @ py_center ''Clear sky'' ?P @ '' ''
                @ ?cc (RESET st) @ ''(18.5'' @ [CHR 0xC3, CHR 0x82])
             @ (degree_sign @ ''C)'') @ [CHR 0x0A]"
    by (simp add: print_result_paris unit_symbol_def degree_text_def degree_sign_def)
  have "snd (print_result st lib paris_payload False) = None"
    by (simp add: print_result_paris)
  moreover have "sublist (py_center ''Paris'' ?P @ '', FR'') ?out"
    by (subst a) (rule sublist_appendI)
  moreover have "sublist ''Clear sky'' ?out"
    by (subst b) (rule sublist_appendI)
  moreover have "sublist ''(18.5'' ?out"
    by (subst c) (rule sublist_appendI)
  moreover have "sublist (degree_sign @ ''C)'') ?out"
    by (subst d) (rule sublist_appendI)
  ultimately show ?thesis by blast
qed

theorem C1_paris_output_witness:
  "print_result example_style example_builtins paris_payload False =
     (CHR 0x1B # ''[7m'' @ CHR 0x1B # ''[31m'' @ ''       Paris        , FR''
        @ CHR 0x1B # ''[0m'' @ CHR 0x1B # ''[31m'' @ CHR 0x09 # ''     Clear sky       ''
        @ CHR 0x1B # ''[0m'' @ ''(18.5'' @ [CHR 0xC3, CHR 0x82, CHR 0xC2, CHR 0xB0] @ ''C)'' @ [CHR 0x0A],
      None)
   \<and> sublist ''       Paris        , FR''
        (fst (print_result example_style example_builtins paris_payload False))
   \<and> sublist ''Clear sky'' (fst (print_result example_style example_builtins paris_payload False))"
proof -
  have e: "print_result example_style example_builtins paris_payload False =
     (CHR 0x1B # ''[7m'' @ CHR 0x1B # ''[31m'' @ ''       Paris        , FR''
        @ CHR 0x1B # ''[0m'' @ CHR 0x1B # ''[31m'' @ CHR 0x09 # ''     Clear sky       ''
        @ CHR 0x1B # ''[0m'' @ ''(18.5'' @ [CHR 0xC3, CHR 0x82, CHR 0xC2, CHR 0xB0] @ ''C)'' @ [CHR 0x0A],
      None)"
    by code_simp
  have p: "py_center ''Paris'' (PADDING example_style) @ '', FR'' = ''       Paris        , FR''"
    by code_simp
  from C1_paris_output [of example_style example_builtins] e p show ?thesis
    by metis
qed

section \<open>The query builder\<close>


lemma build_weather_query_Inr:
  assumes "build_weather_query lib w city_input imperial = Inr url"
  shows "\<exists>api_key. get_api_key lib w = Inr api_key
           \<and> url = BASE_WEATHER_API_URL @ ''?q='' @ quote_plus (join '' '' city_input)
                @ ''&units='' @ units_of imperial @ ''&appid='' @ api_key"
  using assms by (auto simp: build_weather_query_def split: sum.splits)

text \<open>The claim C2 as stated fails: with the same city and the same flag, two
  \<open>secrets.ini\<close> files with different keys give different URLs.\<close>

theorem C2_counterexample:
  "build_weather_query example_builtins (example_world ''key1'' NoConnection NotText) [''Paris''] False
   \<noteq> build_weather_query example_builtins (example_world ''key2'' NoConnection NotText) [''Paris''] False"
  by code_simp

text \<open>C2, amended: the result of \<open>build_weather_query\<close> is fixed by the city tokens, the
  flag and the contents of \<open>secrets.ini\<close>: two worlds with the same \<open>secrets.ini\<close> give the
  same result for the same arguments, whatever else differs between them. (The function
  returns a value and writes nothing.)\<close>

theorem C2_depends_on_secrets_only:
  assumes "files w1 ''secrets.ini'' = files w2 ''secrets.ini''"
  shows "build_weather_query lib w1 city_input imperial = build_weather_query lib w2 city_input imperial"
  using assms by (simp add: build_weather_query_def get_api_key_def config_read_def)

theorem C2_depends_on_secrets_only_witness:
  "build_weather_query example_builtins (example_world ''key1'' NoConnection NotText) [''New'', ''York''] True
     = Inr ''http://api.openweathermap.org/data/2.5/weather?q=New+York&units=imperial&appid=key1''
   \<and> build_weather_query example_builtins
        ((example_world ''key1'' (Response ''{}'') JSONDecodeError)
           \<lparr>files := (files (example_world ''key1'' NoConnection NotText))
                       (''notes.txt'' \<mapsto> Rejected ParsingError)\<rparr>) [''New'', ''York''] True
     = Inr ''http://api.openweathermap.org/data/2.5/weather?q=New+York&units=imperial&appid=key1''"
proof -
  let ?w1 = "example_world ''key1'' NoConnection NotText"
  let ?w2 = "(example_world ''key1'' (Response ''{}'') JSONDecodeError)
           \<lparr>files := (files (example_world ''key1'' NoConnection NotText))
                       (''notes.txt'' \<mapsto> Rejected ParsingError)\<rparr>"
  have h: "files ?w2 ''secrets.ini'' = files ?w1 ''secrets.ini''"
    by simp
  have e: "build_weather_query example_builtins ?w1 [''New'', ''York''] True
     = Inr ''http://api.openweathermap.org/data/2.5/weather?q=New+York&units=imperial&appid=key1''"
    by code_simp
  from C2_depends_on_secrets_only
         [OF h, where lib = example_builtins and city_input = "[''New'', ''York'']"
            and imperial = True] e
  show ?thesis
    by simp
qed

lemma print_result_ends:
  assumes "print_result st lib weather_data imperial = (out, None)"
  shows "\<exists>pre. out = pre @ unit_symbol imperial @ '')'' @ [CHR 0x0A]"
proof -
  from assms obtain n c d t where
    w: "write_result st lib n c d t imperial = (out, None)"
    by (auto simp: print_result_def split: sum.splits)
  then obtain a b where
    "out = ((change_color st (REVERSE st) @ change_color st (RED st) @ a @ '', '' @ py_str lib c
             @ change_color st (RESET st) @ change_color st (RED st) @ [CHR 0x09]
             @ py_center b (PADDING st) @ '' '' @ change_color st (RESET st)
             @ ''('' @ py_str lib t @ degree_text)
           @ unit_symbol imperial @ '')'' @ [CHR 0x0A])"
    by (auto simp: write_result_def Let_def split: sum.splits)
  then show ?thesis by blast
qed

text \<open>C7: for either value of the flag, when the builder returns a URL and the
  presenter prints a line, the URL carries \<open>&units=imperial\<close> right after the encoded
  city exactly when the flag is set, and the line ends with \<open>F)\<close> exactly when the flag
  is set; the URL carries \<open>&units=metric\<close> there exactly when the flag is not set, and
  the line ends with \<open>C)\<close> exactly when it is not set.\<close>

theorem C7_units_match_symbol:
  assumes "build_weather_query lib w city_input imperial = Inr url"
      and "print_result st lib weather_data imperial = (out, None)"
  shows "(prefix (BASE_WEATHER_API_URL @ ''?q='' @ quote_plus (join '' '' city_input)
                    @ ''&units=imperial&appid='') url \<longleftrightarrow> imperial)
       \<and> (suffix (''F)'' @ [CHR 0x0A]) out \<longleftrightarrow> imperial)
       \<and> (prefix (BASE_WEATHER_API_URL @ ''?q='' @ quote_plus (join '' '' city_input)
                    @ ''&units=metric&appid='') url \<longleftrightarrow> \<not> imperial)
       \<and> (suffix (''C)'' @ [CHR 0x0A]) out \<longleftrightarrow> \<not> imperial)"
proof -
  from build_weather_query_Inr [OF assms(1)] obtain api_key where
    u: "url = BASE_WEATHER_API_URL @ ''?q='' @ quote_plus (join '' '' city_input)
              @ ''&units='' @ units_of imperial @ ''&appid='' @ api_key"
    by blast
  from print_result_ends [OF assms(2)] obtain pre where
    o: "out = pre @ unit_symbol imperial @ '')'' @ [CHR 0x0A]"
    by blast
  show ?thesis
    by (cases imperial) (simp_all add: u o units_of_def unit_symbol_def suffix_def)
qed

theorem C7_units_match_symbol_witness:
  "prefix ''http://api.openweathermap.org/data/2.5/weather?q=Paris&units=imperial&appid=''
     (projr (build_weather_query example_builtins (example_world ''k'' NoConnection NotText) [''Paris''] True))
   \<and> suffix (''F)'' @ [CHR 0x0A])
       (fst (print_result example_style example_builtins paris_payload True))
   \<and> prefix ''http://api.openweathermap.org/data/2.5/weather?q=Paris&units=metric&appid=''
     (projr (build_weather_query example_builtins (example_world ''k'' NoConnection NotText) [''Paris''] False))
   \<and> suffix (''C)'' @ [CHR 0x0A])
       (fst (print_result example_style example_builtins paris_payload False))"
proof -
  let ?w = "example_world ''k'' NoConnection NotText"
  have bt: "build_weather_query example_builtins ?w [''Paris''] True =
              Inr (projr (build_weather_query example_builtins ?w [''Paris''] True))"
    by code_simp
  have bf: "build_weather_query example_builtins ?w [''Paris''] False =
              Inr (projr (build_weather_query example_builtins ?w [''Paris''] False))"
    by code_simp
  have pt: "print_result example_style example_builtins paris_payload True =
              (fst (print_result example_style example_builtins paris_payload True), None)"
    by (simp add: print_result_paris)
  have pf: "print_result example_style example_builtins paris_payload False =
              (fst (print_result example_style example_builtins paris_payload False), None)"
    by (simp add: print_result_paris)
  have q: "BASE_WEATHER_API_URL @ ''?q='' @ quote_plus (join '' '' [''Paris''])
             @ ''&units=imperial&appid=''
           = ''http://api.openweathermap.org/data/2.5/weather?q=Paris&units=imperial&appid=''"
          "BASE_WEATHER_API_URL @ ''?q='' @ quote_plus (join '' '' [''Paris''])
             @ ''&units=metric&appid=''
           = ''http://api.openweathermap.org/data/2.5/weather?q=Paris&units=metric&appid=''"
    by code_simp+
  from C7_units_match_symbol [OF bt pt] C7_units_match_symbol [OF bf pf] q
  show ?thesis by metis
qed

subsection \<open>The units parameter in the query string\<close>












end
